theory Spec2Isabelle
  imports Main
begin

section \<open>The hover-colour attribute directive (src/app/highlight.directive.ts)\<close>

text \<open>
  The class \<open>HighlightDirective\<close> has two fields of TypeScript type \<open>string\<close>
  (\<open>_defaultColor\<close>, initialised to \<open>'red'\<close>, and the input \<open>highlightColor\<close>, which has
  no initialiser), a setter \<open>defaultColor\<close>, two host listeners and a private helper
  \<open>highlight\<close> that calls the framework's renderer on the host element.
\<close>

subsection \<open>JavaScript values of a string-typed slot\<close>

text \<open>
  At run time a slot declared \<open>string\<close> holds \<open>undefined\<close> (never assigned), \<open>null\<close> or a
  string. The operator \<open>||\<close> yields its left operand when that operand is truthy and its
  right operand otherwise; of the values above only a non-empty string is truthy.
\<close>

datatype jsval = Undefined | Null | Str string

fun truthy :: "jsval \<Rightarrow> bool" where
  "truthy Undefined = False"
| "truthy Null = False"
| "truthy (Str s) = (s \<noteq> [])"

definition js_or :: "jsval \<Rightarrow> jsval \<Rightarrow> jsval" where
  "js_or a b = (if truthy a then a else b)"

subsection \<open>The host document and the renderer\<close>

type_synonym elem = nat

type_synonym styles = "string \<rightharpoonup> string"

type_synonym document = "elem \<Rightarrow> styles"

text \<open>
  Modelled from the spec: the style-mutation service of the host framework
  (\<open>Renderer.setElementStyle\<close>) is imported from \<open>@angular/core\<close> and is not part of the
  repository. It is "used to set/clear one style property" on a node: a present value
  (a string) is stored under the style name, an absent value (\<open>null\<close>, \<open>undefined\<close>) removes
  the entry. It has no error conditions.
\<close>

fun present :: "jsval \<Rightarrow> string option" where
  "present Undefined = None"
| "present Null = None"
| "present (Str s) = Some s"

definition setElementStyle :: "elem \<Rightarrow> string \<Rightarrow> jsval \<Rightarrow> document \<Rightarrow> document" where
  "setElementStyle e styleName styleValue d = d(e := (d e)(styleName := present styleValue))"

subsection \<open>The directive instance\<close>

text \<open>
  \<open>priv_defaultColor\<close> is the private field \<open>_defaultColor\<close>; \<open>el\<close> is the native element
  behind the injected \<open>ElementRef\<close>. The injected renderer carries no state of its own: its
  effect is on the document.
\<close>

record directive =
  priv_defaultColor :: jsval
  el :: elem
  highlightColor :: jsval

record world =
  dir :: directive
  doc :: document

text \<open>A method body completes normally (\<open>Inr\<close>) or throws (\<open>Inl\<close>).\<close>

datatype js_error = TypeError

type_synonym 'a completion = "js_error + 'a"

text \<open>The constructor together with the field initialiser \<open>_defaultColor = 'red'\<close>.\<close>

definition new_HighlightDirective :: "elem \<Rightarrow> directive" where
  "new_HighlightDirective e =
     \<lparr>priv_defaultColor = Str ''red'', el = e, highlightColor = Undefined\<rparr>"

text \<open>The background colour currently set on the directive's host element.\<close>

definition backgroundColor :: "world \<Rightarrow> string option" where
  "backgroundColor w = doc w (el (dir w)) ''backgroundColor''"

text \<open>\<open>set defaultColor(colorName) { this._defaultColor = colorName || this._defaultColor; }\<close>\<close>

definition set_defaultColor :: "jsval \<Rightarrow> world \<Rightarrow> world completion" where
  "set_defaultColor colorName w =
     Inr (w\<lparr>dir := (dir w)\<lparr>priv_defaultColor :=
            js_or colorName (priv_defaultColor (dir w))\<rparr>\<rparr>)"

text \<open>The input binding \<open>@Input('a2aHighlight') highlightColor\<close>: a plain field assignment.\<close>

definition set_highlightColor :: "jsval \<Rightarrow> world \<Rightarrow> world completion" where
  "set_highlightColor v w = Inr (w\<lparr>dir := (dir w)\<lparr>highlightColor := v\<rparr>\<rparr>)"

text \<open>
  \<open>highlight(color) { this.renderer.setElementStyle(this.el.nativeElement,
  'backgroundColor', color); }\<close>
\<close>

definition highlight :: "jsval \<Rightarrow> world \<Rightarrow> world completion" where
  "highlight color w =
     Inr (w\<lparr>doc := setElementStyle (el (dir w)) ''backgroundColor'' color (doc w)\<rparr>)"

text \<open>\<open>onMouseEnter() { this.highlight(this.highlightColor || this._defaultColor); }\<close>\<close>

definition onMouseEnter :: "world \<Rightarrow> world completion" where
  "onMouseEnter w = highlight (js_or (highlightColor (dir w)) (priv_defaultColor (dir w))) w"

text \<open>\<open>onMouseLeave() { this.highlight(null); }\<close>\<close>

definition onMouseLeave :: "world \<Rightarrow> world completion" where
  "onMouseLeave w = highlight Null w"

subsection \<open>Sequences of calls made by the host framework\<close>

datatype event =
    MouseEnter
  | MouseLeave
  | SetDefaultColor jsval
  | SetHighlightColor jsval

fun dispatch :: "event \<Rightarrow> world \<Rightarrow> world completion" where
  "dispatch MouseEnter w = onMouseEnter w"
| "dispatch MouseLeave w = onMouseLeave w"
| "dispatch (SetDefaultColor c) w = set_defaultColor c w"
| "dispatch (SetHighlightColor c) w = set_highlightColor c w"

text \<open>A throw ends the sequence, as an uncaught exception would.\<close>

fun run :: "event list \<Rightarrow> world \<Rightarrow> world completion" where
  "run [] w = Inr w"
| "run (ev # evs) w = (case dispatch ev w of Inl e \<Rightarrow> Inl e | Inr w' \<Rightarrow> run evs w')"

subsection \<open>The injected collaborators\<close>

text \<open>
  The constructor parameters \<open>private el: ElementRef\<close> and \<open>private renderer: Renderer\<close>
  are fields of the instance, supplied by whoever constructs it. \<open>Renderer\<close> is an
  abstract class: an implementation of \<open>setElementStyle\<close> completes normally with the new
  document or throws. A reference that is \<open>null\<close> or \<open>undefined\<close> (\<open>None\<close>) makes the
  member access on it throw a \<open>TypeError\<close>.
\<close>

type_synonym renderer = "elem \<Rightarrow> string \<Rightarrow> jsval \<Rightarrow> document \<Rightarrow> document completion"

record injected =
  inj_el :: "elem option"
  inj_renderer :: "renderer option"

text \<open>
  \<open>highlight\<close> with its three steps that can throw: the access \<open>this.renderer.setElementStyle\<close>,
  the access \<open>this.el.nativeElement\<close>, and the call itself. Nothing is caught.
\<close>

definition highlight_inj :: "injected \<Rightarrow> jsval \<Rightarrow> world \<Rightarrow> world completion" where
  "highlight_inj k color w =
     (case inj_renderer k of
        None \<Rightarrow> Inl TypeError
      | Some r \<Rightarrow>
          (case inj_el k of
             None \<Rightarrow> Inl TypeError
           | Some e \<Rightarrow>
               (case r e ''backgroundColor'' color (doc w) of
                  Inl err \<Rightarrow> Inl err
                | Inr d' \<Rightarrow> Inr (w\<lparr>doc := d'\<rparr>))))"

definition onMouseEnter_inj :: "injected \<Rightarrow> world \<Rightarrow> world completion" where
  "onMouseEnter_inj k w =
     highlight_inj k (js_or (highlightColor (dir w)) (priv_defaultColor (dir w))) w"

definition onMouseLeave_inj :: "injected \<Rightarrow> world \<Rightarrow> world completion" where
  "onMouseLeave_inj k w = highlight_inj k Null w"



text \<open>
  What the host framework injects: the host element and the style-mutation service
  modelled above, which has no error conditions.
\<close>

definition framework_renderer :: renderer where
  "framework_renderer e styleName styleValue d = Inr (setElementStyle e styleName styleValue d)"

definition framework_injected :: "world \<Rightarrow> injected" where
  "framework_injected w = \<lparr>inj_el = Some (el (dir w)), inj_renderer = Some framework_renderer\<rparr>"

section \<open>Auxiliary facts\<close>

lemma js_or_truthy: "truthy a \<Longrightarrow> js_or a b = a"
  by (simp add: js_or_def)

lemma js_or_falsy: "\<not> truthy a \<Longrightarrow> js_or a b = b"
  by (simp add: js_or_def)

lemma backgroundColor_highlight:
  "highlight color w = Inr w' \<Longrightarrow> backgroundColor w' = present color"
  by (auto simp: highlight_def backgroundColor_def setElementStyle_def)

lemma highlight_total: "\<exists>w'. highlight color w = Inr w'"
  by (simp add: highlight_def)

lemma truthy_iff: "truthy v \<longleftrightarrow> (\<exists>c. v = Str c \<and> c \<noteq> [])"
  by (cases v) simp_all

lemma onMouseEnter_falsy:
  assumes "\<not> truthy (highlightColor (dir w))"
  shows "\<exists>w'. onMouseEnter w = Inr w' \<and> backgroundColor w' = present (priv_defaultColor (dir w))"
proof -
  from assms have eq: "onMouseEnter w = highlight (priv_defaultColor (dir w)) w"
    by (simp add: onMouseEnter_def js_or_falsy)
  obtain w' where w': "highlight (priv_defaultColor (dir w)) w = Inr w'"
    using highlight_total by blast
  from backgroundColor_highlight [OF w'] eq w' show ?thesis by simp
qed

lemma highlight_dir: "highlight color w = Inr w' \<Longrightarrow> dir w' = dir w"
  by (auto simp: highlight_def)

lemma highlight_doc_other:
  assumes "highlight color w = Inr w'" and "(e, n) \<noteq> (el (dir w), ''backgroundColor'')"
  shows "doc w' e n = doc w e n"
  using assms by (auto simp: highlight_def setElementStyle_def)

lemma set_defaultColor_truthy:
  assumes "truthy (priv_defaultColor (dir w))" and "set_defaultColor c w = Inr w'"
  shows "truthy (priv_defaultColor (dir w'))"
  using assms by (cases "truthy c") (auto simp: set_defaultColor_def js_or_def)

lemma dispatch_total: "\<exists>w'. dispatch ev w = Inr w'"
  by (cases ev)
    (simp_all add: onMouseEnter_def onMouseLeave_def highlight_def set_defaultColor_def
      set_highlightColor_def)

lemma dispatch_truthy:
  assumes "truthy (priv_defaultColor (dir w))" and "dispatch ev w = Inr w'"
  shows "truthy (priv_defaultColor (dir w'))"
proof (cases ev)
  case MouseEnter
  with assms show ?thesis by (simp add: onMouseEnter_def highlight_dir)
next
  case MouseLeave
  with assms show ?thesis by (simp add: onMouseLeave_def highlight_dir)
next
  case (SetDefaultColor c)
  with assms show ?thesis using set_defaultColor_truthy by simp
next
  case (SetHighlightColor c)
  with assms show ?thesis by (auto simp: set_highlightColor_def)
qed

lemma run_total: "\<exists>w'. run evs w = Inr w'"
proof (induction evs arbitrary: w)
  case Nil
  show ?case by simp
next
  case (Cons ev evs)
  obtain w1 where "dispatch ev w = Inr w1"
    using dispatch_total by blast
  with Cons.IH [of w1] show ?case by simp
qed

lemma run_truthy:
  assumes "truthy (priv_defaultColor (dir w))" and "run evs w = Inr w'"
  shows "truthy (priv_defaultColor (dir w'))"
  using assms
proof (induction evs arbitrary: w)
  case Nil
  then show ?case by simp
next
  case (Cons ev evs)
  obtain w1 where w1: "dispatch ev w = Inr w1"
    using dispatch_total by blast
  with Cons.prems have "truthy (priv_defaultColor (dir w1))" and "run evs w1 = Inr w'"
    using dispatch_truthy by simp_all
  then show ?case by (rule Cons.IH)
qed






text \<open>
  With the collaborators the framework injects, the handlers are the ones defined first.
\<close>

lemma highlight_inj_framework: "highlight_inj (framework_injected w) color w = highlight color w"
  by (simp add: highlight_inj_def framework_injected_def framework_renderer_def highlight_def)

lemma onMouseEnter_inj_framework: "onMouseEnter_inj (framework_injected w) w = onMouseEnter w"
  by (simp add: onMouseEnter_inj_def onMouseEnter_def highlight_inj_framework)

lemma onMouseLeave_inj_framework: "onMouseLeave_inj (framework_injected w) w = onMouseLeave w"
  by (simp add: onMouseLeave_inj_def onMouseLeave_def highlight_inj_framework)

section \<open>The event handlers\<close>

text \<open>
  C1. Whenever \<open>highlightColor\<close> holds a non-empty string, the pointer-enter handler
  completes normally and leaves exactly that string as the background colour of the host
  element.
\<close>

theorem onMouseEnter_activeColor:
  assumes "highlightColor (dir w) = Str s" and "s \<noteq> []"
  shows "\<exists>w'. onMouseEnter w = Inr w' \<and> backgroundColor w' = Some s"
proof -
  from assms have "js_or (highlightColor (dir w)) (priv_defaultColor (dir w)) = Str s"
    by (simp add: js_or_truthy)
  then have eq: "onMouseEnter w = highlight (Str s) w"
    by (simp add: onMouseEnter_def)
  obtain w' where w': "highlight (Str s) w = Inr w'"
    using highlight_total by blast
  then have "backgroundColor w' = Some s"
    using backgroundColor_highlight by fastforce
  with eq w' show ?thesis by simp
qed

theorem onMouseEnter_activeColor_witness:
  "highlightColor (dir \<lparr>dir = \<lparr>priv_defaultColor = Str ''red'', el = 0,
       highlightColor = Str ''yellow''\<rparr>, doc = (\<lambda>_. Map.empty)\<rparr>) = Str ''yellow''
   \<and> ''yellow'' \<noteq> []
   \<and> (\<exists>w'. onMouseEnter \<lparr>dir = \<lparr>priv_defaultColor = Str ''red'', el = 0,
       highlightColor = Str ''yellow''\<rparr>, doc = (\<lambda>_. Map.empty)\<rparr> = Inr w'
       \<and> backgroundColor w' = Some ''yellow'')"
  using onMouseEnter_activeColor
    [of "\<lparr>dir = \<lparr>priv_defaultColor = Str ''red'', el = 0,
       highlightColor = Str ''yellow''\<rparr>, doc = (\<lambda>_. Map.empty)\<rparr>" "''yellow''"]
  by simp

text \<open>
  C2. Whenever \<open>highlightColor\<close> is unset (\<open>undefined\<close>), the pointer-enter handler
  completes normally and hands the current \<open>_defaultColor\<close> to the renderer: the background
  colour of the host element becomes the present value of \<open>_defaultColor\<close>, that is the
  string \<open>c\<close> whenever \<open>_defaultColor\<close> holds the string \<open>c\<close>.
\<close>

theorem onMouseEnter_fallbackColor:
  assumes "highlightColor (dir w) = Undefined"
  shows "\<exists>w'. onMouseEnter w = Inr w'
           \<and> backgroundColor w' = present (priv_defaultColor (dir w))
           \<and> (\<forall>c. priv_defaultColor (dir w) = Str c \<longrightarrow> backgroundColor w' = Some c)"
proof -
  from assms have "\<not> truthy (highlightColor (dir w))" by simp
  then obtain w' where w': "onMouseEnter w = Inr w'"
      and bg: "backgroundColor w' = present (priv_defaultColor (dir w))"
    using onMouseEnter_falsy by blast
  from bg have "\<forall>c. priv_defaultColor (dir w) = Str c \<longrightarrow> backgroundColor w' = Some c"
    by simp
  with w' bg show ?thesis by blast
qed

theorem onMouseEnter_fallbackColor_witness:
  "highlightColor (dir \<lparr>dir = \<lparr>priv_defaultColor = Str ''violet'', el = 0,
       highlightColor = Undefined\<rparr>, doc = (\<lambda>_. Map.empty)\<rparr>) = Undefined
   \<and> priv_defaultColor (dir \<lparr>dir = \<lparr>priv_defaultColor = Str ''violet'', el = 0,
       highlightColor = Undefined\<rparr>, doc = (\<lambda>_. Map.empty)\<rparr>) = Str ''violet''
   \<and> (\<exists>w'. onMouseEnter \<lparr>dir = \<lparr>priv_defaultColor = Str ''violet'', el = 0,
       highlightColor = Undefined\<rparr>, doc = (\<lambda>_. Map.empty)\<rparr> = Inr w'
       \<and> backgroundColor w' = Some ''violet'')"
  using onMouseEnter_fallbackColor
    [of "\<lparr>dir = \<lparr>priv_defaultColor = Str ''violet'', el = 0,
       highlightColor = Undefined\<rparr>, doc = (\<lambda>_. Map.empty)\<rparr>"]
  by simp

text \<open>
  C3. In every state, whatever the two colour fields and the previous background, the
  pointer-leave handler completes normally and leaves the host element without a
  background colour.
\<close>

theorem onMouseLeave_clears:
  "\<exists>w'. onMouseLeave w = Inr w' \<and> backgroundColor w' = None"
proof -
  obtain w' where w': "highlight Null w = Inr w'"
    using highlight_total by blast
  from backgroundColor_highlight [OF w'] w' show ?thesis
    by (simp add: onMouseLeave_def)
qed

text \<open>
  C9. When \<open>highlightColor\<close> is bound to the empty string, the pointer-enter handler falls
  back exactly as for an unset value: the background colour of the host element becomes the
  present value of \<open>_defaultColor\<close>.
\<close>

theorem onMouseEnter_empty_activeColor:
  assumes "highlightColor (dir w) = Str []"
  shows "\<exists>w'. onMouseEnter w = Inr w'
           \<and> backgroundColor w' = present (priv_defaultColor (dir w))"
proof -
  from assms have "\<not> truthy (highlightColor (dir w))" by simp
  then show ?thesis by (rule onMouseEnter_falsy)
qed

theorem onMouseEnter_empty_activeColor_witness:
  "highlightColor (dir \<lparr>dir = \<lparr>priv_defaultColor = Str ''red'', el = 0,
       highlightColor = Str []\<rparr>, doc = (\<lambda>_. Map.empty)\<rparr>) = Str []
   \<and> (\<exists>w'. onMouseEnter \<lparr>dir = \<lparr>priv_defaultColor = Str ''red'', el = 0,
       highlightColor = Str []\<rparr>, doc = (\<lambda>_. Map.empty)\<rparr> = Inr w'
       \<and> backgroundColor w' = Some ''red'')"
  using onMouseEnter_empty_activeColor
    [of "\<lparr>dir = \<lparr>priv_defaultColor = Str ''red'', el = 0,
       highlightColor = Str []\<rparr>, doc = (\<lambda>_. Map.empty)\<rparr>"]
  by simp

text \<open>
  C10. Neither handler changes the directive instance: after pointer-enter and after
  pointer-leave the fields \<open>highlightColor\<close> and \<open>_defaultColor\<close> (and the element
  reference) are what they were, and in the document every style entry other than the
  background colour of the host element is what it was.
\<close>

theorem handlers_frame:
  "\<exists>w1 w2. onMouseEnter w = Inr w1 \<and> onMouseLeave w = Inr w2
     \<and> highlightColor (dir w1) = highlightColor (dir w)
     \<and> priv_defaultColor (dir w1) = priv_defaultColor (dir w)
     \<and> highlightColor (dir w2) = highlightColor (dir w)
     \<and> priv_defaultColor (dir w2) = priv_defaultColor (dir w)
     \<and> dir w1 = dir w \<and> dir w2 = dir w
     \<and> (\<forall>e n. (e, n) \<noteq> (el (dir w), ''backgroundColor'')
           \<longrightarrow> doc w1 e n = doc w e n \<and> doc w2 e n = doc w e n)"
proof -
  obtain w1 where w1: "onMouseEnter w = Inr w1"
    using highlight_total by (auto simp: onMouseEnter_def)
  obtain w2 where w2: "onMouseLeave w = Inr w2"
    using highlight_total by (auto simp: onMouseLeave_def)
  from w1 have d1: "dir w1 = dir w"
    unfolding onMouseEnter_def by (rule highlight_dir)
  from w2 have d2: "dir w2 = dir w"
    unfolding onMouseLeave_def by (rule highlight_dir)
  have "doc w1 e n = doc w e n \<and> doc w2 e n = doc w e n"
    if "(e, n) \<noteq> (el (dir w), ''backgroundColor'')" for e n
    using w1 w2 that highlight_doc_other
    unfolding onMouseEnter_def onMouseLeave_def by blast
  with w1 w2 d1 d2 show ?thesis by simp
qed

theorem handlers_frame_witness:
  "\<exists>w1 w2. onMouseEnter \<lparr>dir = \<lparr>priv_defaultColor = Str ''red'', el = 0,
       highlightColor = Undefined\<rparr>,
     doc = (\<lambda>_. [''color'' \<mapsto> ''black''])\<rparr> = Inr w1
     \<and> onMouseLeave \<lparr>dir = \<lparr>priv_defaultColor = Str ''red'', el = 0,
       highlightColor = Undefined\<rparr>,
     doc = (\<lambda>_. [''color'' \<mapsto> ''black''])\<rparr> = Inr w2
     \<and> highlightColor (dir w1) = Undefined \<and> priv_defaultColor (dir w1) = Str ''red''
     \<and> highlightColor (dir w2) = Undefined \<and> priv_defaultColor (dir w2) = Str ''red''
     \<and> (0, ''color'') \<noteq> (0::nat, ''backgroundColor'')
     \<and> doc w1 0 ''color'' = Some ''black'' \<and> doc w2 0 ''color'' = Some ''black''
     \<and> (1, ''backgroundColor'') \<noteq> (0::nat, ''backgroundColor'')
     \<and> doc w1 1 ''backgroundColor'' = None \<and> doc w2 1 ''backgroundColor'' = None"
proof -
  obtain w1 w2 where h: "onMouseEnter \<lparr>dir = \<lparr>priv_defaultColor = Str ''red'', el = 0,
       highlightColor = Undefined\<rparr>,
     doc = (\<lambda>_. [''color'' \<mapsto> ''black''])\<rparr> = Inr w1"
     "onMouseLeave \<lparr>dir = \<lparr>priv_defaultColor = Str ''red'', el = 0,
       highlightColor = Undefined\<rparr>,
     doc = (\<lambda>_. [''color'' \<mapsto> ''black''])\<rparr> = Inr w2"
     "dir w1 = dir \<lparr>dir = \<lparr>priv_defaultColor = Str ''red'', el = 0,
       highlightColor = Undefined\<rparr>,
     doc = (\<lambda>_. [''color'' \<mapsto> ''black''])\<rparr>"
     "dir w2 = dir \<lparr>dir = \<lparr>priv_defaultColor = Str ''red'', el = 0,
       highlightColor = Undefined\<rparr>,
     doc = (\<lambda>_. [''color'' \<mapsto> ''black''])\<rparr>"
     "\<forall>e n. (e, n) \<noteq> (el (dir \<lparr>dir = \<lparr>priv_defaultColor = Str ''red'', el = 0,
       highlightColor = Undefined\<rparr>,
     doc = (\<lambda>_. [''color'' \<mapsto> ''black''])\<rparr>), ''backgroundColor'')
        \<longrightarrow> doc w1 e n = doc \<lparr>dir = \<lparr>priv_defaultColor = Str ''red'', el = 0,
       highlightColor = Undefined\<rparr>,
     doc = (\<lambda>_. [''color'' \<mapsto> ''black''])\<rparr> e n
          \<and> doc w2 e n = doc \<lparr>dir = \<lparr>priv_defaultColor = Str ''red'', el = 0,
       highlightColor = Undefined\<rparr>,
     doc = (\<lambda>_. [''color'' \<mapsto> ''black''])\<rparr> e n"
    using handlers_frame
      [of "\<lparr>dir = \<lparr>priv_defaultColor = Str ''red'', el = 0,
       highlightColor = Undefined\<rparr>,
     doc = (\<lambda>_. [''color'' \<mapsto> ''black''])\<rparr>"]
    by blast
  from h(5) have "doc w1 0 ''color'' = Some ''black'' \<and> doc w2 0 ''color'' = Some ''black''"
    by simp
  moreover from h(5)
  have "doc w1 1 ''backgroundColor'' = None \<and> doc w2 1 ''backgroundColor'' = None"
    by simp
  ultimately show ?thesis using h(1-4) by simp
qed

section \<open>The fallback colour\<close>

text \<open>
  C5. The setter \<open>defaultColor\<close> never throws. Called with a non-empty string it stores
  that string in \<open>_defaultColor\<close> and changes nothing else; called with the empty string,
  \<open>null\<close> or \<open>undefined\<close> it leaves the whole state, and so \<open>_defaultColor\<close>, as it was.
\<close>

theorem set_defaultColor_cases:
  "(s \<noteq> [] \<longrightarrow>
      set_defaultColor (Str s) w = Inr (w\<lparr>dir := (dir w)\<lparr>priv_defaultColor := Str s\<rparr>\<rparr>))
   \<and> set_defaultColor (Str []) w = Inr w
   \<and> set_defaultColor Null w = Inr w
   \<and> set_defaultColor Undefined w = Inr w"
  by (simp add: set_defaultColor_def js_or_def)

theorem set_defaultColor_cases_witness:
  "''blue'' \<noteq> []
   \<and> set_defaultColor (Str ''blue'') \<lparr>dir = \<lparr>priv_defaultColor = Str ''red'', el = 0,
       highlightColor = Undefined\<rparr>, doc = (\<lambda>_. Map.empty)\<rparr> = Inr \<lparr>dir = \<lparr>priv_defaultColor = Str ''blue'', el = 0,
       highlightColor = Undefined\<rparr>, doc = (\<lambda>_. Map.empty)\<rparr>
   \<and> set_defaultColor (Str []) \<lparr>dir = \<lparr>priv_defaultColor = Str ''red'', el = 0,
       highlightColor = Undefined\<rparr>, doc = (\<lambda>_. Map.empty)\<rparr> = Inr \<lparr>dir = \<lparr>priv_defaultColor = Str ''red'', el = 0,
       highlightColor = Undefined\<rparr>, doc = (\<lambda>_. Map.empty)\<rparr>
   \<and> set_defaultColor Null \<lparr>dir = \<lparr>priv_defaultColor = Str ''red'', el = 0,
       highlightColor = Undefined\<rparr>, doc = (\<lambda>_. Map.empty)\<rparr> = Inr \<lparr>dir = \<lparr>priv_defaultColor = Str ''red'', el = 0,
       highlightColor = Undefined\<rparr>, doc = (\<lambda>_. Map.empty)\<rparr>
   \<and> set_defaultColor Undefined \<lparr>dir = \<lparr>priv_defaultColor = Str ''red'', el = 0,
       highlightColor = Undefined\<rparr>, doc = (\<lambda>_. Map.empty)\<rparr> = Inr \<lparr>dir = \<lparr>priv_defaultColor = Str ''red'', el = 0,
       highlightColor = Undefined\<rparr>, doc = (\<lambda>_. Map.empty)\<rparr>"
  using set_defaultColor_cases
    [of "''blue''" "\<lparr>dir = \<lparr>priv_defaultColor = Str ''red'', el = 0,
       highlightColor = Undefined\<rparr>, doc = (\<lambda>_. Map.empty)\<rparr>"]
  by simp

text \<open>
  C4. \<open>_defaultColor\<close> starts as the non-empty string \<open>'red'\<close>, and after any sequence of
  setter calls, input bindings and handler invocations on a freshly constructed directive
  the sequence has completed normally and \<open>_defaultColor\<close> is still a non-empty string.
\<close>

theorem fallbackColor_never_empty:
  "priv_defaultColor (new_HighlightDirective e) = Str ''red''
   \<and> (\<exists>w' c. run evs \<lparr>dir = new_HighlightDirective e, doc = d\<rparr> = Inr w'
         \<and> priv_defaultColor (dir w') = Str c \<and> c \<noteq> [])"
proof -
  let ?w = "\<lparr>dir = new_HighlightDirective e, doc = d\<rparr>"
  have init: "priv_defaultColor (new_HighlightDirective e) = Str ''red''"
    by (simp add: new_HighlightDirective_def)
  then have "truthy (priv_defaultColor (dir ?w))" by simp
  moreover obtain w' where w': "run evs ?w = Inr w'"
    using run_total by blast
  ultimately have "truthy (priv_defaultColor (dir w'))"
    by (rule run_truthy)
  then obtain c where "priv_defaultColor (dir w') = Str c" and "c \<noteq> []"
    using truthy_iff by blast
  with init w' show ?thesis by blast
qed

section \<open>Scenarios\<close>

text \<open>
  C6. With \<open>highlightColor\<close> unset, calling the setter \<open>defaultColor\<close> with \<open>'blue'\<close> and then
  the pointer-enter handler completes normally and leaves \<open>'blue'\<close> as the background colour
  of the host element.
\<close>

theorem blue_then_enter:
  assumes "highlightColor (dir w) = Undefined"
  shows "\<exists>w'. run [SetDefaultColor (Str ''blue''), MouseEnter] w = Inr w'
           \<and> backgroundColor w' = Some ''blue''"
proof -
  let ?w1 = "w\<lparr>dir := (dir w)\<lparr>priv_defaultColor := Str ''blue''\<rparr>\<rparr>"
  have step1: "set_defaultColor (Str ''blue'') w = Inr ?w1"
    by (simp add: set_defaultColor_def js_or_def)
  from assms have "\<not> truthy (highlightColor (dir ?w1))" by simp
  then obtain w' where w': "onMouseEnter ?w1 = Inr w'"
      and "backgroundColor w' = present (priv_defaultColor (dir ?w1))"
    using onMouseEnter_falsy by blast
  then have "backgroundColor w' = Some ''blue''" by simp
  with step1 w' show ?thesis by simp
qed

theorem blue_then_enter_witness:
  "highlightColor (dir \<lparr>dir = \<lparr>priv_defaultColor = Str ''red'', el = 0,
       highlightColor = Undefined\<rparr>, doc = (\<lambda>_. Map.empty)\<rparr>) = Undefined
   \<and> (\<exists>w'. run [SetDefaultColor (Str ''blue''), MouseEnter] \<lparr>dir = \<lparr>priv_defaultColor = Str ''red'', el = 0,
       highlightColor = Undefined\<rparr>, doc = (\<lambda>_. Map.empty)\<rparr> = Inr w'
         \<and> backgroundColor w' = Some ''blue'')"
  using blue_then_enter
    [of "\<lparr>dir = \<lparr>priv_defaultColor = Str ''red'', el = 0,
       highlightColor = Undefined\<rparr>, doc = (\<lambda>_. Map.empty)\<rparr>"]
  by simp

text \<open>
  C7. On a freshly constructed directive (\<open>_defaultColor\<close> is \<open>'red'\<close>) whose input
  \<open>highlightColor\<close> is bound to \<open>'yellow'\<close>, pointer-enter completes normally with background
  colour \<open>'yellow'\<close>, and a following pointer-leave completes normally with no background
  colour.
\<close>

theorem yellow_enter_leave:
  "\<exists>w0 w1 w2.
      set_highlightColor (Str ''yellow'') \<lparr>dir = new_HighlightDirective e, doc = d\<rparr> = Inr w0
    \<and> highlightColor (dir w0) = Str ''yellow'' \<and> priv_defaultColor (dir w0) = Str ''red''
    \<and> onMouseEnter w0 = Inr w1 \<and> backgroundColor w1 = Some ''yellow''
    \<and> onMouseLeave w1 = Inr w2 \<and> backgroundColor w2 = None"
proof -
  let ?w0 = "\<lparr>dir = (new_HighlightDirective e)\<lparr>highlightColor := Str ''yellow''\<rparr>, doc = d\<rparr>"
  have s0: "set_highlightColor (Str ''yellow'') \<lparr>dir = new_HighlightDirective e, doc = d\<rparr>
      = Inr ?w0"
    by (simp add: set_highlightColor_def)
  have f0: "highlightColor (dir ?w0) = Str ''yellow''" "priv_defaultColor (dir ?w0) = Str ''red''"
    by (simp_all add: new_HighlightDirective_def)
  have "js_or (highlightColor (dir ?w0)) (priv_defaultColor (dir ?w0)) = Str ''yellow''"
    by (simp add: js_or_def)
  then have e1: "onMouseEnter ?w0 = highlight (Str ''yellow'') ?w0"
    by (simp only: onMouseEnter_def)
  obtain w1 where w1: "highlight (Str ''yellow'') ?w0 = Inr w1"
    using highlight_total by blast
  have b1: "backgroundColor w1 = Some ''yellow''"
    using backgroundColor_highlight [OF w1] by simp
  obtain w2 where w2: "highlight Null w1 = Inr w2"
    using highlight_total by blast
  have b2: "backgroundColor w2 = None"
    using backgroundColor_highlight [OF w2] by simp
  from w2 have l2: "onMouseLeave w1 = Inr w2"
    by (simp add: onMouseLeave_def)
  from s0 f0 e1 w1 b1 l2 b2 show ?thesis by metis
qed

section \<open>Absence of failure\<close>




end
